theory Spec2Isabelle
  imports Main "HOL-Library.Char_ord" "HOL-Library.List_Lexorder" "HOL-Library.Multiset"
    "HOL-Library.Sublist" "HOL-Library.Monad_Syntax"
begin

section \<open>Python values\<close>

text \<open>
  A Python \<open>str\<close> is modelled as a \<open>string\<close> whose characters are code points below 256,
  and \<open>bytes\<close> as a \<open>string\<close> whose characters are bytes. Code points from U+0100 on
  (and with them lone surrogates, on which \<open>str.encode\<close> raises) are outside the model.
  Python orders strings by code point, which is the lexicographic order on \<open>char list\<close>.

  The value of \<open>json.loads\<close>: \<open>None\<close>, \<open>bool\<close>, \<open>int\<close>, \<open>float\<close>, \<open>str\<close>, \<open>list\<close> and
  \<open>dict\<close>. A \<open>dict\<close> keeps its insertion order, so it is an association list; a Python
  dict has no duplicate keys (\<open>wf_json\<close>). IEEE doubles are the type parameter \<open>'f\<close>: what
  the code does with them (\<open>repr\<close>, \<open>float(v)\<close>, \<open><\<close>) comes with the environment.
\<close>

type_synonym bytes = string

datatype 'f json =
    JNull
  | JBool bool
  | JInt int
  | JFloat 'f
  | JStr string
  | JArr "'f json list"
  | JObj "(string \<times> 'f json) list"

fun wf_json :: "'f json \<Rightarrow> bool" where
  "wf_json (JArr xs) = list_all wf_json xs"
| "wf_json (JObj kvs) = (distinct (map fst kvs) \<and> list_all (\<lambda>kv. wf_json (snd kv)) kvs)"
| "wf_json _ = True"

datatype py_exception = ValueError | OverflowError | RegexError

section \<open>Models (\<open>app/models.py\<close>)\<close>

datatype ReasonCode =
    OK
  | REQUEST_PARSE_ERROR
  | REQUEST_SCHEMA_INVALID
  | CTX_HASH_MISMATCH
  | PROFILE_NOT_FOUND
  | PROFILE_PARSE_ERROR
  | INVALID_PROFILE_DEFAULT
  | TOOL_NOT_ALLOWED
  | CONTROL_REQUIRED
  | CONSTRAINT_VIOLATION
  | CONSTRAINT_EVAL_ERROR
  | AUDIT_WRITE_FAILED
  | INTERNAL_ERROR

fun reason_value :: "ReasonCode \<Rightarrow> string" where
  "reason_value OK = ''OK''"
| "reason_value REQUEST_PARSE_ERROR = ''REQUEST_PARSE_ERROR''"
| "reason_value REQUEST_SCHEMA_INVALID = ''REQUEST_SCHEMA_INVALID''"
| "reason_value CTX_HASH_MISMATCH = ''CTX_HASH_MISMATCH''"
| "reason_value PROFILE_NOT_FOUND = ''PROFILE_NOT_FOUND''"
| "reason_value PROFILE_PARSE_ERROR = ''PROFILE_PARSE_ERROR''"
| "reason_value INVALID_PROFILE_DEFAULT = ''INVALID_PROFILE_DEFAULT''"
| "reason_value TOOL_NOT_ALLOWED = ''TOOL_NOT_ALLOWED''"
| "reason_value CONTROL_REQUIRED = ''CONTROL_REQUIRED''"
| "reason_value CONSTRAINT_VIOLATION = ''CONSTRAINT_VIOLATION''"
| "reason_value CONSTRAINT_EVAL_ERROR = ''CONSTRAINT_EVAL_ERROR''"
| "reason_value AUDIT_WRITE_FAILED = ''AUDIT_WRITE_FAILED''"
| "reason_value INTERNAL_ERROR = ''INTERNAL_ERROR''"

definition all_reason_codes :: "ReasonCode list" where
  "all_reason_codes =
     [OK, REQUEST_PARSE_ERROR, REQUEST_SCHEMA_INVALID, CTX_HASH_MISMATCH, PROFILE_NOT_FOUND,
      PROFILE_PARSE_ERROR, INVALID_PROFILE_DEFAULT, TOOL_NOT_ALLOWED, CONTROL_REQUIRED,
      CONSTRAINT_VIOLATION, CONSTRAINT_EVAL_ERROR, AUDIT_WRITE_FAILED, INTERNAL_ERROR]"

text \<open>\<open>ReasonCode._value2member_map_\<close>: the member with a given value, if any.\<close>

definition value2member :: "string \<Rightarrow> ReasonCode option" where
  "value2member s = find (\<lambda>r. reason_value r = s) all_reason_codes"

datatype DecisionType = ALLOW | DENY | ESCALATE

record Actor =
  principal_id :: string
  principal_type :: string
  attributes :: "(string \<times> string) list"

record 'f ToolCall =
  call_name :: string
  call_args :: "'f json"

record ProfileRef =
  ref_id :: string
  ref_version :: string

record 'f Context =
  snapshot :: "'f json"
  snapshot_hash :: string

record Controls =
  approval_token :: "string option"
  nonce :: "string option"

record 'f ExecutionRequest =
  request_id :: string
  actor :: Actor
  tool :: "'f ToolCall"
  profile :: ProfileRef
  request_context :: "'f Context"
  controls :: "Controls option"
  submitted_at :: "string option"

record RequiredControls =
  requires_approval_token :: bool

record 'f ArgRule =
  path :: string
  rule_type :: string
  pattern :: "string option"
  max_len :: "int option"
  enum :: "string list option"
  rule_min :: "'f option"
  rule_max :: "'f option"

record 'f Constraints =
  arg_rules :: "'f ArgRule list"

record 'f ToolPermit =
  permit_name :: string
  required_controls :: RequiredControls
  constraints :: "'f Constraints option"

record 'f ExecutionProfile =
  profile_id :: string
  profile_version :: string
  allowed_tools :: "'f ToolPermit list"
  profile_default :: string

record RuntimeMeta =
  runtime_name :: string
  runtime_version :: string
  runtime_build :: string

record DecisionProfileInfo =
  info_id :: string
  info_version :: string
  profile_ref_hash :: string

record 'f ApprovedCall =
  tool_name :: string
  tool_args :: "'f json"

record 'f ExecutionDecision =
  decision_type :: DecisionType
  reason_code :: ReasonCode
  request_hash :: string
  provenance_id :: string
  decision_profile :: DecisionProfileInfo
  decision_runtime :: RuntimeMeta
  approved_call :: "'f ApprovedCall option"

text \<open>
  The validator \<open>ExecutionDecision._allow_requires_approved_call\<close>: \<open>True\<close> where it
  returns the decision, \<open>False\<close> where it raises.
\<close>

definition allow_requires_approved_call :: "'f ExecutionDecision \<Rightarrow> bool" where
  "allow_requires_approved_call d =
     (if decision_type d = ALLOW \<and> approved_call d = None then False
      else if decision_type d \<noteq> ALLOW \<and> approved_call d \<noteq> None then False
      else True)"

record AuditTimestamps =
  received_at :: string
  decided_at :: string
  logged_at :: string

text \<open>The dictionary that \<open>_audit_record_from_denied\<close> builds, key by key.\<close>

record 'f audit_record =
  rec_provenance_id :: string
  rec_seq :: nat
  rec_request_id :: string
  rec_request_hash :: string
  rec_decision_type :: DecisionType
  rec_reason_code :: string
  rec_approved_call :: "'f ApprovedCall option"
  rec_profile_id :: string
  rec_profile_version :: string
  rec_profile_ref_hash :: string
  rec_runtime :: RuntimeMeta
  rec_timestamps :: AuditTimestamps

section \<open>The environment of one invocation\<close>

text \<open>
  What the gate calls and this repository does not define under \<open>app/gate.py\<close>,
  \<open>app/enforce.py\<close>, \<open>app/hashing.py\<close> or \<open>app/models.py\<close>: the Python library
  (\<open>hashlib\<close>, \<open>json.loads\<close>, \<open>float\<close>, \<open>re.match\<close>), the profile loader, the audit log,
  the clock and the runtime identity. An exception is a value: \<open>None\<close>, \<open>False\<close> or a
  constructor of \<open>load_result\<close>.
\<close>

datatype 'f load_result =
    Loaded "'f ExecutionProfile" string
  | LoadRuntimeError "string option"
  | LoadOtherError

record 'f env =
  sha256_hexdigest :: "bytes \<Rightarrow> string"
  float_repr :: "'f \<Rightarrow> string"
  float_of_int :: "int \<Rightarrow> 'f option"
  float_less :: "'f \<Rightarrow> 'f \<Rightarrow> bool"
  re_match :: "string \<Rightarrow> string \<Rightarrow> bool option"
  json_loads :: "bytes \<Rightarrow> 'f json option"
  load_profile :: "string \<Rightarrow> string \<Rightarrow> 'f load_result"
  append_audit_record :: "'f audit_record \<Rightarrow> bool"
  utc_now_iso :: "nat \<Rightarrow> string"
  runtime :: RuntimeMeta

text \<open>
  \<^item> \<open>sha256_hexdigest data\<close> is \<open>hashlib.sha256(data).hexdigest()\<close>.
  \<^item> \<open>float_of_int i\<close> is \<open>float(i)\<close>, \<open>None\<close> where it raises \<open>OverflowError\<close>.
  \<^item> \<open>re_match p v\<close> is \<open>re.match(p, v) is not None\<close>, for every pattern that \<open>re\<close> takes,
    anchors and look-around included; \<open>None\<close> where \<open>re.match\<close> raises.
  \<^item> \<open>json_loads raw\<close> is \<open>json.loads(raw.decode("utf-8"))\<close>, \<open>None\<close> where either raises.
  \<^item> \<open>load_profile\<close> returns the profile and its reference hash, raises a
    \<open>RuntimeError\<close> (with \<open>str(e.args[0])\<close>, if it has arguments) or raises something else.
  \<^item> \<open>append_audit_record r\<close> is \<open>False\<close> where the append raises.
  \<^item> \<open>utc_now_iso n\<close> is what the \<open>n\<close>-th reading of the clock in this invocation returns.
  \<^item> \<open>runtime\<close> is \<open>RuntimeIdentity()\<close>, the triple of name, version and build.
\<close>

section \<open>Canonical JSON and hashing (\<open>app/hashing.py\<close>)\<close>

text \<open>\<open>'{0:04x}'.format(i)\<close> for a control character, and \<open>repr\<close> of an \<open>int\<close>.\<close>

definition hex_digit :: "nat \<Rightarrow> char" where
  "hex_digit n = ''0123456789abcdef'' ! (n mod 16)"

fun dec_digits :: "nat \<Rightarrow> string" where
  "dec_digits n =
     (if n < 10 then [''0123456789'' ! n] else dec_digits (n div 10) @ [''0123456789'' ! (n mod 10)])"

declare dec_digits.simps [simp del]

definition int_repr :: "int \<Rightarrow> string" where
  "int_repr i = (if i < 0 then CHR ''-'' # dec_digits (nat (- i)) else dec_digits (nat i))"

text \<open>
  \<open>json.encoder.py_encode_basestring\<close>, which \<open>ensure_ascii=False\<close> selects: the quote,
  the backslash and the control characters are escaped, everything else is kept.
\<close>

definition escape_char :: "char \<Rightarrow> string" where
  "escape_char c =
     (if c = CHR 0x22 then [CHR 0x5C, CHR 0x22]
      else if c = CHR 0x5C then [CHR 0x5C, CHR 0x5C]
      else if c = CHR 0x0A then [CHR 0x5C, CHR ''n'']
      else if c = CHR 0x0D then [CHR 0x5C, CHR ''r'']
      else if c = CHR 0x09 then [CHR 0x5C, CHR ''t'']
      else if c = CHR 0x08 then [CHR 0x5C, CHR ''b'']
      else if c = CHR 0x0C then [CHR 0x5C, CHR ''f'']
      else if (of_char c :: nat) < 32
        then [CHR 0x5C, CHR ''u'', CHR ''0'', CHR ''0'',
              hex_digit ((of_char c :: nat) div 16), hex_digit (of_char c :: nat)]
      else [c])"

definition encode_basestring :: "string \<Rightarrow> string" where
  "encode_basestring s = CHR 0x22 # concat (map escape_char s) @ [CHR 0x22]"

fun join :: "string \<Rightarrow> string list \<Rightarrow> string" where
  "join sep [] = []"
| "join sep [x] = x"
| "join sep (x # y # ys) = x @ sep @ join sep (y # ys)"

text \<open>
  \<open>json.dumps(obj, sort_keys=True, separators=(",", ":"), ensure_ascii=False)\<close>. With
  \<open>sort_keys\<close> the items of a dict are written in the order of \<open>sorted\<close>, a stable sort.
\<close>

fun dumps :: "('f \<Rightarrow> string) \<Rightarrow> 'f json \<Rightarrow> string" where
  "dumps fr JNull = ''null''"
| "dumps fr (JBool b) = (if b then ''true'' else ''false'')"
| "dumps fr (JInt i) = int_repr i"
| "dumps fr (JFloat x) = fr x"
| "dumps fr (JStr s) = encode_basestring s"
| "dumps fr (JArr xs) = ''['' @ join '','' (map (dumps fr) xs) @ '']''"
| "dumps fr (JObj kvs) =
     ''{'' @ join '','' (map (\<lambda>kv. encode_basestring (fst kv) @ '':'' @ dumps fr (snd kv))
                          (sort_key fst kvs)) @ ''}''"

text \<open>\<open>str.encode("utf-8")\<close> on code points below 256: one byte below 128, two from there.\<close>

definition utf8_char :: "char \<Rightarrow> bytes" where
  "utf8_char c =
     (if (of_char c :: nat) < 128 then [c]
      else [char_of (192 + (of_char c :: nat) div 64), char_of (128 + (of_char c :: nat) mod 64)])"

definition utf8_encode :: "string \<Rightarrow> bytes" where
  "utf8_encode s = concat (map utf8_char s)"

definition canonical_json_bytes :: "'f env \<Rightarrow> 'f json \<Rightarrow> bytes" where
  "canonical_json_bytes E obj = utf8_encode (dumps (float_repr E) obj)"

definition sha256_hex :: "'f env \<Rightarrow> bytes \<Rightarrow> string" where
  "sha256_hex E data = sha256_hexdigest E data"

definition sha256_prefixed :: "'f env \<Rightarrow> bytes \<Rightarrow> string" where
  "sha256_prefixed E data = ''sha256:'' @ sha256_hex E data"

definition hash_json :: "'f env \<Rightarrow> 'f json \<Rightarrow> string" where
  "hash_json E obj = sha256_prefixed E (canonical_json_bytes E obj)"

text \<open>
  Two JSON values that differ only in the order of the keys of their dicts, at any depth:
  the items of a dict are related one by one, key for key, and then permuted.
\<close>

inductive key_perm :: "'f json \<Rightarrow> 'f json \<Rightarrow> bool" where
  same: "key_perm x x"
| in_list: "list_all2 key_perm xs ys \<Longrightarrow> key_perm (JArr xs) (JArr ys)"
| in_dict:
    "list_all2 (\<lambda>a b. fst a = fst b \<and> key_perm (snd a) (snd b)) kvs mid \<Longrightarrow>
     mset mid = mset kvs' \<Longrightarrow> key_perm (JObj kvs) (JObj kvs')"

section \<open>Schema validation (\<open>app/models.py\<close>)\<close>

text \<open>
  \<open>ExecutionRequest.model_validate(obj)\<close> under \<open>STRICT = ConfigDict(extra="forbid",
  frozen=True)\<close>: every model takes a dict with no key beyond its fields; a field without
  a default is required; a \<open>str\<close> field takes a \<open>str\<close> only, here of \<open>min_length=1\<close>; an
  \<open>Optional[str]\<close> also takes \<open>None\<close>; an \<open>Any\<close> field takes every value as it is.
  \<open>None\<close> is the \<open>ValidationError\<close>.
\<close>

definition no_extra :: "(string \<times> 'f json) list \<Rightarrow> string list \<Rightarrow> bool" where
  "no_extra kvs names = list_all (\<lambda>kv. fst kv \<in> set names) kvs"

fun validate_str :: "'f json option \<Rightarrow> string option" where
  "validate_str (Some (JStr s)) = (if length s \<ge> 1 then Some s else None)"
| "validate_str _ = None"

fun validate_optional_str :: "'f json option \<Rightarrow> string option option" where
  "validate_optional_str None = Some None"
| "validate_optional_str (Some JNull) = Some None"
| "validate_optional_str (Some (JStr s)) = Some (Some s)"
| "validate_optional_str _ = None"

fun validate_required :: "'f json option \<Rightarrow> 'f json option" where
  "validate_required v = v"

fun validate_str_items :: "(string \<times> 'f json) list \<Rightarrow> (string \<times> string) list option" where
  "validate_str_items [] = Some []"
| "validate_str_items ((k, JStr s) # kvs) = map_option ((#) (k, s)) (validate_str_items kvs)"
| "validate_str_items _ = None"

fun validate_attributes :: "'f json option \<Rightarrow> (string \<times> string) list option" where
  "validate_attributes None = Some []"
| "validate_attributes (Some (JObj kvs)) = validate_str_items kvs"
| "validate_attributes _ = None"

fun validate_Actor :: "'f json option \<Rightarrow> Actor option" where
  "validate_Actor (Some (JObj kvs)) =
     (if no_extra kvs [''principal_id'', ''principal_type'', ''attributes''] then do {
        pid \<leftarrow> validate_str (map_of kvs ''principal_id'');
        pty \<leftarrow> validate_str (map_of kvs ''principal_type'');
        att \<leftarrow> validate_attributes (map_of kvs ''attributes'');
        Some \<lparr>principal_id = pid, principal_type = pty, attributes = att\<rparr>
      } else None)"
| "validate_Actor _ = None"

fun validate_ToolCall :: "'f json option \<Rightarrow> 'f ToolCall option" where
  "validate_ToolCall (Some (JObj kvs)) =
     (if no_extra kvs [''name'', ''args''] then do {
        n \<leftarrow> validate_str (map_of kvs ''name'');
        a \<leftarrow> validate_required (map_of kvs ''args'');
        Some \<lparr>call_name = n, call_args = a\<rparr>
      } else None)"
| "validate_ToolCall _ = None"

fun validate_ProfileRef :: "'f json option \<Rightarrow> ProfileRef option" where
  "validate_ProfileRef (Some (JObj kvs)) =
     (if no_extra kvs [''id'', ''version''] then do {
        i \<leftarrow> validate_str (map_of kvs ''id'');
        v \<leftarrow> validate_str (map_of kvs ''version'');
        Some \<lparr>ref_id = i, ref_version = v\<rparr>
      } else None)"
| "validate_ProfileRef _ = None"

fun validate_Context :: "'f json option \<Rightarrow> 'f Context option" where
  "validate_Context (Some (JObj kvs)) =
     (if no_extra kvs [''snapshot'', ''snapshot_hash''] then do {
        sn \<leftarrow> validate_required (map_of kvs ''snapshot'');
        sh \<leftarrow> validate_str (map_of kvs ''snapshot_hash'');
        Some \<lparr>snapshot = sn, snapshot_hash = sh\<rparr>
      } else None)"
| "validate_Context _ = None"

fun validate_Controls :: "'f json option \<Rightarrow> Controls option option" where
  "validate_Controls None = Some None"
| "validate_Controls (Some JNull) = Some None"
| "validate_Controls (Some (JObj kvs)) =
     (if no_extra kvs [''approval_token'', ''nonce''] then do {
        t \<leftarrow> validate_optional_str (map_of kvs ''approval_token'');
        n \<leftarrow> validate_optional_str (map_of kvs ''nonce'');
        Some (Some \<lparr>approval_token = t, nonce = n\<rparr>)
      } else None)"
| "validate_Controls _ = None"

fun model_validate :: "'f json \<Rightarrow> 'f ExecutionRequest option" where
  "model_validate (JObj kvs) =
     (if no_extra kvs [''request_id'', ''actor'', ''tool'', ''profile'', ''context'',
                       ''controls'', ''submitted_at''] then do {
        rid \<leftarrow> validate_str (map_of kvs ''request_id'');
        act \<leftarrow> validate_Actor (map_of kvs ''actor'');
        call \<leftarrow> validate_ToolCall (map_of kvs ''tool'');
        prof \<leftarrow> validate_ProfileRef (map_of kvs ''profile'');
        ctx \<leftarrow> validate_Context (map_of kvs ''context'');
        ctl \<leftarrow> validate_Controls (map_of kvs ''controls'');
        sub \<leftarrow> validate_optional_str (map_of kvs ''submitted_at'');
        Some \<lparr>request_id = rid, actor = act, tool = call, profile = prof, request_context = ctx,
              controls = ctl, submitted_at = sub\<rparr>
      } else None)"
| "model_validate _ = None"

text \<open>\<open>obj[key]\<close> on a parsed body, where \<open>obj\<close> is a dict that has the key.\<close>

definition member :: "string \<Rightarrow> 'f json \<Rightarrow> 'f json option" where
  "member key obj = (case obj of JObj kvs \<Rightarrow> map_of kvs key | _ \<Rightarrow> None)"

text \<open>\<open>req.model_dump()\<close>: the dict of all fields, in the order of their declaration.\<close>

fun dump_optional_str :: "string option \<Rightarrow> 'f json" where
  "dump_optional_str None = JNull"
| "dump_optional_str (Some s) = JStr s"

fun dump_Controls :: "Controls option \<Rightarrow> 'f json" where
  "dump_Controls None = JNull"
| "dump_Controls (Some c) =
     JObj [(''approval_token'', dump_optional_str (approval_token c)),
           (''nonce'', dump_optional_str (nonce c))]"

definition model_dump :: "'f ExecutionRequest \<Rightarrow> 'f json" where
  "model_dump req =
     JObj [(''request_id'', JStr (request_id req)),
           (''actor'', JObj [(''principal_id'', JStr (principal_id (actor req))),
                             (''principal_type'', JStr (principal_type (actor req))),
                             (''attributes'',
                                JObj (map (\<lambda>kv. (fst kv, JStr (snd kv))) (attributes (actor req))))]),
           (''tool'', JObj [(''name'', JStr (call_name (tool req))),
                            (''args'', call_args (tool req))]),
           (''profile'', JObj [(''id'', JStr (ref_id (profile req))),
                               (''version'', JStr (ref_version (profile req)))]),
           (''context'', JObj [(''snapshot'', snapshot (request_context req)),
                               (''snapshot_hash'', JStr (snapshot_hash (request_context req)))]),
           (''controls'', dump_Controls (controls req)),
           (''submitted_at'', dump_optional_str (submitted_at req))]"

section \<open>Enforcement (\<open>app/enforce.py\<close>)\<close>

fun find_tool_permit_in :: "'f ToolPermit list \<Rightarrow> string \<Rightarrow> 'f ToolPermit option" where
  "find_tool_permit_in [] name = None"
| "find_tool_permit_in (p # ps) name =
     (if permit_name p = name then Some p else find_tool_permit_in ps name)"

definition find_tool_permit :: "'f ExecutionProfile \<Rightarrow> string \<Rightarrow> 'f ToolPermit option" where
  "find_tool_permit prof name = find_tool_permit_in (allowed_tools prof) name"

text \<open>\<open>not token\<close> holds of \<open>None\<close> and of the empty string.\<close>

definition require_controls :: "'f ExecutionRequest \<Rightarrow> 'f ToolPermit \<Rightarrow> ReasonCode option" where
  "require_controls req permit =
     (if requires_approval_token (required_controls permit) then
        (let token = (case controls req of None \<Rightarrow> None | Some c \<Rightarrow> approval_token c) in
         if token = None \<or> token = Some [] then Some CONTROL_REQUIRED
         else if token \<noteq> Some ''APPROVED'' then Some CONTROL_REQUIRED
         else None)
      else None)"

text \<open>\<open>args.get(key, None)\<close>: a missing key and a \<open>null\<close> value are both \<open>None\<close>.\<close>

definition get_arg_value :: "'f json \<Rightarrow> string \<Rightarrow> py_exception + 'f json" where
  "get_arg_value args p =
     (if take 2 p \<noteq> ''$.'' then Inl ValueError
      else (let key = drop 2 p in
            case args of
              JObj kvs \<Rightarrow> Inr (case map_of kvs key of None \<Rightarrow> JNull | Some v \<Rightarrow> v)
            | _ \<Rightarrow> Inl ValueError))"

text \<open>
  \<open>isinstance(v, (int, float))\<close> holds of a \<open>bool\<close> too, \<open>bool\<close> being a subclass of \<open>int\<close>;
  \<open>float(True)\<close> is \<open>float(1)\<close>.
\<close>

fun is_int_or_float :: "'f json \<Rightarrow> bool" where
  "is_int_or_float (JInt i) = True"
| "is_int_or_float (JFloat x) = True"
| "is_int_or_float (JBool b) = True"
| "is_int_or_float _ = False"

fun to_float :: "'f env \<Rightarrow> 'f json \<Rightarrow> py_exception + 'f" where
  "to_float E (JFloat x) = Inr x"
| "to_float E (JInt i) = (case float_of_int E i of None \<Rightarrow> Inl OverflowError | Some x \<Rightarrow> Inr x)"
| "to_float E (JBool b) =
     (case float_of_int E (if b then 1 else 0) of None \<Rightarrow> Inl OverflowError | Some x \<Rightarrow> Inr x)"
| "to_float E _ = Inl ValueError"

text \<open>
  The body of the loop of \<open>enforce_constraints\<close> on one rule: \<open>Inl\<close> an exception,
  \<open>Inr (Some rc)\<close> the \<open>return rc\<close>, \<open>Inr None\<close> the rule passed and the loop goes on.
\<close>

definition check_string :: "'f env \<Rightarrow> 'f ArgRule \<Rightarrow> 'f json \<Rightarrow> py_exception + ReasonCode option" where
  "check_string E rule v =
     (case v of
        JStr s \<Rightarrow>
          if max_len rule \<noteq> None \<and> int (length s) > the (max_len rule)
            then Inr (Some CONSTRAINT_VIOLATION)
          else if enum rule \<noteq> None \<and> s \<notin> set (the (enum rule))
            then Inr (Some CONSTRAINT_VIOLATION)
          else (case pattern rule of
                  None \<Rightarrow> Inr None
                | Some p \<Rightarrow>
                    (case re_match E p s of
                       None \<Rightarrow> Inl RegexError
                     | Some m \<Rightarrow> if \<not> m then Inr (Some CONSTRAINT_VIOLATION)
                                else Inr None))
      | _ \<Rightarrow> Inr (Some CONSTRAINT_VIOLATION))"

definition check_number :: "'f env \<Rightarrow> 'f ArgRule \<Rightarrow> 'f json \<Rightarrow> py_exception + ReasonCode option" where
  "check_number E rule v =
     (if \<not> is_int_or_float v then Inr (Some CONSTRAINT_VIOLATION)
      else
        (case (case rule_min rule of
                 None \<Rightarrow> Inr False
               | Some lo \<Rightarrow> map_sum id (\<lambda>x. float_less E x lo) (to_float E v)) of
           Inl e \<Rightarrow> Inl e
         | Inr True \<Rightarrow> Inr (Some CONSTRAINT_VIOLATION)
         | Inr False \<Rightarrow>
             (case (case rule_max rule of
                      None \<Rightarrow> Inr False
                    | Some hi \<Rightarrow> map_sum id (\<lambda>x. float_less E hi x) (to_float E v)) of
                Inl e \<Rightarrow> Inl e
              | Inr True \<Rightarrow> Inr (Some CONSTRAINT_VIOLATION)
              | Inr False \<Rightarrow> Inr None)))"

definition check_rule :: "'f env \<Rightarrow> 'f json \<Rightarrow> 'f ArgRule \<Rightarrow> py_exception + ReasonCode option" where
  "check_rule E args rule =
     (case get_arg_value args (path rule) of
        Inl e \<Rightarrow> Inl e
      | Inr v \<Rightarrow>
          if v = JNull then Inr (Some CONSTRAINT_VIOLATION)
          else if rule_type rule = ''string'' then check_string E rule v
          else if rule_type rule = ''number'' then check_number E rule v
          else if rule_type rule = ''bool'' then
            (case v of JBool b \<Rightarrow> Inr None | _ \<Rightarrow> Inr (Some CONSTRAINT_VIOLATION))
          else Inr (Some CONSTRAINT_EVAL_ERROR))"

fun check_rules :: "'f env \<Rightarrow> 'f json \<Rightarrow> 'f ArgRule list \<Rightarrow> py_exception + ReasonCode option" where
  "check_rules E args [] = Inr None"
| "check_rules E args (rule # rules) =
     (case check_rule E args rule of
        Inl e \<Rightarrow> Inl e
      | Inr (Some rc) \<Rightarrow> Inr (Some rc)
      | Inr None \<Rightarrow> check_rules E args rules)"

definition enforce_constraints ::
  "'f env \<Rightarrow> 'f ExecutionRequest \<Rightarrow> 'f ToolPermit \<Rightarrow> ReasonCode option" where
  "enforce_constraints E req permit =
     (case constraints permit of
        None \<Rightarrow> None
      | Some c \<Rightarrow>
          if arg_rules c = [] then None
          else (case check_rules E (call_args (tool req)) (arg_rules c) of
                  Inl e \<Rightarrow> Some CONSTRAINT_EVAL_ERROR
                | Inr r \<Rightarrow> r))"

section \<open>Decision assembly (\<open>app/decision.py\<close>)\<close>

text \<open>
  Modelled from the spec: \<open>provenance_id_from_inputs\<close>, of \<open>app/decision.py\<close>, which is
  not among the sources. "\<open>provenance_id = hash_json({ "request_hash": R,
  "profile_ref_hash": P, "runtime_version": V })\<close>".
\<close>

definition provenance_id_from_inputs :: "'f env \<Rightarrow> string \<Rightarrow> string \<Rightarrow> string \<Rightarrow> string" where
  "provenance_id_from_inputs E req_hash prof_hash version =
     hash_json E (JObj [(''request_hash'', JStr req_hash),
                        (''profile_ref_hash'', JStr prof_hash),
                        (''runtime_version'', JStr version)])"

text \<open>
  Modelled from the spec: \<open>fallback_profile_ref_hash\<close>, of \<open>app/decision.py\<close>. "The gate
  substitutes a fallback profile ref hash: the digest of canonical empty-object \<open>{}\<close>."
\<close>

definition fallback_profile_ref_hash :: "'f env \<Rightarrow> string" where
  "fallback_profile_ref_hash E = hash_json E (JObj [])"

text \<open>
  Modelled from the spec: \<open>deny_decision\<close>, of \<open>app/decision.py\<close>. A decision carries the
  reason code, the request hash, the provenance id, the profile triple and the runtime;
  "\<open>DENY\<close> decisions omit" the approved call, and "\<open>runtime_version\<close> used in provenance
  is the \<open>version\<close> field".
\<close>

definition deny_decision ::
  "'f env \<Rightarrow> ReasonCode \<Rightarrow> string \<Rightarrow> string \<Rightarrow> string \<Rightarrow> string \<Rightarrow> RuntimeMeta
     \<Rightarrow> 'f ExecutionDecision" where
  "deny_decision E reason req_hash prof_id prof_version prof_hash rt =
     \<lparr>decision_type = DENY,
      reason_code = reason,
      request_hash = req_hash,
      provenance_id = provenance_id_from_inputs E req_hash prof_hash (runtime_version rt),
      decision_profile = \<lparr>info_id = prof_id, info_version = prof_version,
                           profile_ref_hash = prof_hash\<rparr>,
      decision_runtime = rt,
      approved_call = None\<rparr>"

text \<open>
  Modelled from the spec: \<open>allow_decision\<close>, of \<open>app/decision.py\<close>. \<open>OK\<close> "pairs with
  \<open>ALLOW\<close>", and "\<open>ALLOW\<close> decisions carry \<open>approved_call = { tool_name, tool_args }\<close>".
\<close>

definition allow_decision ::
  "'f env \<Rightarrow> string \<Rightarrow> string \<Rightarrow> string \<Rightarrow> string \<Rightarrow> string \<Rightarrow> 'f json \<Rightarrow> RuntimeMeta
     \<Rightarrow> 'f ExecutionDecision" where
  "allow_decision E req_hash prof_id prof_version prof_hash name args rt =
     \<lparr>decision_type = ALLOW,
      reason_code = OK,
      request_hash = req_hash,
      provenance_id = provenance_id_from_inputs E req_hash prof_hash (runtime_version rt),
      decision_profile = \<lparr>info_id = prof_id, info_version = prof_version,
                           profile_ref_hash = prof_hash\<rparr>,
      decision_runtime = rt,
      approved_call = Some \<lparr>tool_name = name, tool_args = args\<rparr>\<rparr>"

section \<open>The gate (\<open>app/gate.py\<close>)\<close>

text \<open>
  The local variables of \<open>execute\<close> that its \<open>except Exception\<close> branch reads, and the
  number of clock readings so far.
\<close>

record locals =
  l_profile_id :: string
  l_profile_version :: string
  l_profile_ref_hash :: string
  l_request_id :: string
  l_clock :: nat

text \<open>
  \<open>_audit_record_from_denied\<close>, with the keyword arguments that \<open>execute\<close> passes; it never
  passes \<open>approved_call\<close> or \<open>decision\<close>, which stay \<open>None\<close>. \<open>runtime\<close> is the dump of a
  \<open>RuntimeMeta\<close>: of the keys tried for \<open>runtime_version\<close> it has \<open>version\<close> only.
  \<open>now\<close> is the clock reading for \<open>logged_at\<close>.
\<close>

definition audit_record_from_denied ::
  "'f env \<Rightarrow> string \<Rightarrow> string \<Rightarrow> string \<Rightarrow> string \<Rightarrow> string \<Rightarrow> string \<Rightarrow> RuntimeMeta
     \<Rightarrow> string \<Rightarrow> string \<Rightarrow> DecisionType option \<Rightarrow> string option \<Rightarrow> 'f audit_record" where
  "audit_record_from_denied E now req_id req_hash prof_id prof_version prof_hash rt
       received decided dec_type reason =
     (let version = (if runtime_version rt \<noteq> [] then runtime_version rt else ''0'');
          prov_id = provenance_id_from_inputs E req_hash prof_hash version;
          dt = (case dec_type of None \<Rightarrow> DENY | Some t \<Rightarrow> t);
          rc = (case reason of None \<Rightarrow> ''INTERNAL_ERROR''
                | Some r \<Rightarrow> if r = [] then ''INTERNAL_ERROR'' else r)
      in \<lparr>rec_provenance_id = prov_id,
          rec_seq = 0,
          rec_request_id = req_id,
          rec_request_hash = req_hash,
          rec_decision_type = dt,
          rec_reason_code = rc,
          rec_approved_call = None,
          rec_profile_id = prof_id,
          rec_profile_version = prof_version,
          rec_profile_ref_hash = prof_hash,
          rec_runtime = rt,
          rec_timestamps = \<lparr>received_at = received, decided_at = decided, logged_at = now\<rparr>\<rparr>)"

text \<open>
  The four lines that end every branch of \<open>execute\<close>: read \<open>decided_at\<close>, build the audit
  record, append it, return the decision. Where the append raises, the exception leaves
  the branch with the local variables as they are (\<open>Inl\<close>).
\<close>

definition audit_and_return ::
  "'f env \<Rightarrow> locals \<Rightarrow> string \<Rightarrow> string \<Rightarrow> 'f ExecutionDecision
     \<Rightarrow> locals + 'f ExecutionDecision" where
  "audit_and_return E L received req_hash decision =
     (let decided = utc_now_iso E (l_clock L);
          entry = audit_record_from_denied E (utc_now_iso E (Suc (l_clock L)))
                    (l_request_id L) req_hash (l_profile_id L) (l_profile_version L)
                    (l_profile_ref_hash L) (decision_runtime decision) received decided
                    (Some (decision_type decision)) (Some (reason_value (reason_code decision)))
      in if append_audit_record E entry then Inr decision
         else Inl (L\<lparr>l_clock := l_clock L + 2\<rparr>))"

text \<open>Lines 172 to 214: allowlist, required controls, argument constraints.\<close>

definition enforce ::
  "'f env \<Rightarrow> 'f ExecutionRequest \<Rightarrow> 'f ExecutionProfile \<Rightarrow> string \<Rightarrow> string
     \<Rightarrow> 'f ExecutionDecision" where
  "enforce E req profile_model req_hash prof_hash =
     (let prof_id = ref_id (profile req); prof_version = ref_version (profile req) in
      case find_tool_permit profile_model (call_name (tool req)) of
        None \<Rightarrow> deny_decision E TOOL_NOT_ALLOWED req_hash prof_id prof_version prof_hash (runtime E)
      | Some permit \<Rightarrow>
          (case require_controls req permit of
             Some rc \<Rightarrow> deny_decision E rc req_hash prof_id prof_version prof_hash (runtime E)
           | None \<Rightarrow>
               (case enforce_constraints E req permit of
                  Some rc2 \<Rightarrow>
                    deny_decision E rc2 req_hash prof_id prof_version prof_hash (runtime E)
                | None \<Rightarrow>
                    allow_decision E req_hash prof_id prof_version prof_hash
                      (call_name (tool req)) (call_args (tool req)) (runtime E))))"

text \<open>The body of the outer \<open>try\<close> of \<open>execute\<close>; \<open>Inl\<close> is an exception leaving it.\<close>

definition execute_try :: "'f env \<Rightarrow> bytes \<Rightarrow> locals + 'f ExecutionDecision" where
  "execute_try E raw =
     (let received = utc_now_iso E 0;
          L0 = \<lparr>l_profile_id = ''UNKNOWN'', l_profile_version = ''UNKNOWN'',
                l_profile_ref_hash = fallback_profile_ref_hash E, l_request_id = ''UNKNOWN'',
                l_clock = 1\<rparr>
      in case json_loads E raw of
        None \<Rightarrow>
          (let req_hash = sha256_prefixed E raw in
           audit_and_return E L0 received req_hash
             (deny_decision E REQUEST_PARSE_ERROR req_hash (l_profile_id L0)
                (l_profile_version L0) (l_profile_ref_hash L0) (runtime E)))
      | Some obj \<Rightarrow>
          (case model_validate obj of
             None \<Rightarrow>
               (let req_hash = sha256_prefixed E (canonical_json_bytes E obj) in
                audit_and_return E L0 received req_hash
                  (deny_decision E REQUEST_SCHEMA_INVALID req_hash (l_profile_id L0)
                     (l_profile_version L0) (l_profile_ref_hash L0) (runtime E)))
           | Some req \<Rightarrow>
               (let L1 = L0\<lparr>l_request_id := request_id req,
                             l_profile_id := ref_id (profile req),
                             l_profile_version := ref_version (profile req)\<rparr>;
                    req_hash = hash_json E (model_dump req);
                    computed_ctx = hash_json E (snapshot (request_context req))
                in if snapshot_hash (request_context req) \<noteq> computed_ctx then
                     audit_and_return E L1 received req_hash
                       (deny_decision E CTX_HASH_MISMATCH req_hash (l_profile_id L1)
                          (l_profile_version L1) (l_profile_ref_hash L1) (runtime E))
                   else
                     (case load_profile E (l_profile_id L1) (l_profile_version L1) of
                        LoadOtherError \<Rightarrow> Inl L1
                      | LoadRuntimeError a \<Rightarrow>
                          (let reason_str = (case a of None \<Rightarrow> reason_value PROFILE_PARSE_ERROR
                                             | Some m \<Rightarrow> m);
                               reason = (case value2member reason_str of
                                           Some r \<Rightarrow> r | None \<Rightarrow> PROFILE_PARSE_ERROR)
                           in audit_and_return E L1 received req_hash
                                (deny_decision E reason req_hash (l_profile_id L1)
                                   (l_profile_version L1) (l_profile_ref_hash L1) (runtime E)))
                      | Loaded profile_model prof_hash \<Rightarrow>
                          (let L2 = L1\<lparr>l_profile_ref_hash := prof_hash\<rparr> in
                           audit_and_return E L2 received req_hash
                             (enforce E req profile_model req_hash prof_hash))))))"

text \<open>
  \<open>execute\<close>: the decision returned, or \<open>None\<close> where the append in the
  \<open>except Exception\<close> branch raises too and the exception leaves the handler.
\<close>

definition execute :: "'f env \<Rightarrow> bytes \<Rightarrow> 'f ExecutionDecision option" where
  "execute E raw =
     (case execute_try E raw of
        Inr decision \<Rightarrow> Some decision
      | Inl L \<Rightarrow>
          (let req_hash = sha256_prefixed E raw;
               decision = deny_decision E INTERNAL_ERROR req_hash (l_profile_id L)
                            (l_profile_version L) (l_profile_ref_hash L) (runtime E)
           in case audit_and_return E L (utc_now_iso E 0) req_hash decision of
                Inr d \<Rightarrow> Some d
              | Inl L' \<Rightarrow> None))"

section \<open>Concrete inputs\<close>

text \<open>
  One environment and one request to run the definitions on. SHA-256 is replaced by the
  identity on bytes, an injective stand-in for the digest: two hashes below differ exactly
  when the hashed bytes differ. Doubles are replaced by the integers. \<open>demo_raw\<close> is the
  body of a request and \<open>demo_obj\<close> what \<open>json.loads\<close> returns on it; \<open>[ ]\<close> is a body
  that is valid JSON and no request; every other body fails to parse. The table for
  \<open>re.match\<close> holds what Python returns on two patterns and two values, and is not asked
  anything else.
\<close>

definition demo_rule :: "int ArgRule" where
  "demo_rule =
     \<lparr>path = ''$.to'', rule_type = ''string'', pattern = Some ''[^@]+@example[.]com'',
      max_len = None, enum = None, rule_min = None, rule_max = None\<rparr>"


definition demo_profile :: "int ExecutionProfile" where
  "demo_profile =
     \<lparr>profile_id = ''example'', profile_version = ''1.0.0'',
      allowed_tools =
        [\<lparr>permit_name = ''email.send'',
          required_controls = \<lparr>requires_approval_token = False\<rparr>,
          constraints = Some \<lparr>arg_rules =
            [demo_rule,
             \<lparr>path = ''$.subject'', rule_type = ''string'', pattern = None,
              max_len = Some 128, enum = None, rule_min = None, rule_max = None\<rparr>]\<rparr>\<rparr>,
         \<lparr>permit_name = ''storage.put'',
          required_controls = \<lparr>requires_approval_token = True\<rparr>,
          constraints = None\<rparr>,
         \<lparr>permit_name = ''storage.put'',
          required_controls = \<lparr>requires_approval_token = False\<rparr>,
          constraints = None\<rparr>],
      profile_default = ''DENY''\<rparr>"

definition demo_raw :: bytes where
  \<open>demo_raw = ''{"request_id": "r1", "actor": {"principal_id": "user:1", "principal_type": "user"}, "tool": {"name": "email.send", "args": {"to": "bob@example.com", "subject": "hi"}}, "profile": {"id": "example", "version": "1.0.0"}, "context": {"snapshot": 1, "snapshot_hash": "sha256:1"}}''\<close>

definition demo_obj :: "int json" where
  "demo_obj =
     JObj [(''request_id'', JStr ''r1''),
           (''actor'', JObj [(''principal_id'', JStr ''user:1''),
                             (''principal_type'', JStr ''user'')]),
           (''tool'', JObj [(''name'', JStr ''email.send''),
                            (''args'', JObj [(''to'', JStr ''bob@example.com''),
                                             (''subject'', JStr ''hi'')])]),
           (''profile'', JObj [(''id'', JStr ''example''), (''version'', JStr ''1.0.0'')]),
           (''context'', JObj [(''snapshot'', JInt 1),
                               (''snapshot_hash'', JStr ''sha256:1'')])]"

text \<open>The same body with another \<open>snapshot_hash\<close>, which the snapshot does not have.\<close>

definition mismatch_raw :: bytes where
  \<open>mismatch_raw = ''{"request_id": "r1", "actor": {"principal_id": "user:1", "principal_type": "user"}, "tool": {"name": "email.send", "args": {"to": "bob@example.com", "subject": "hi"}}, "profile": {"id": "example", "version": "1.0.0"}, "context": {"snapshot": 1, "snapshot_hash": "sha256:2"}}''\<close>

definition mismatch_obj :: "int json" where
  "mismatch_obj =
     JObj [(''request_id'', JStr ''r1''),
           (''actor'', JObj [(''principal_id'', JStr ''user:1''),
                             (''principal_type'', JStr ''user'')]),
           (''tool'', JObj [(''name'', JStr ''email.send''),
                            (''args'', JObj [(''to'', JStr ''bob@example.com''),
                                             (''subject'', JStr ''hi'')])]),
           (''profile'', JObj [(''id'', JStr ''example''), (''version'', JStr ''1.0.0'')]),
           (''context'', JObj [(''snapshot'', JInt 1),
                               (''snapshot_hash'', JStr ''sha256:2'')])]"

definition demo_request :: "int ExecutionRequest" where
  "demo_request =
     \<lparr>request_id = ''r1'',
      actor = \<lparr>principal_id = ''user:1'', principal_type = ''user'', attributes = []\<rparr>,
      tool = \<lparr>call_name = ''email.send'',
              call_args = JObj [(''to'', JStr ''bob@example.com''), (''subject'', JStr ''hi'')]\<rparr>,
      profile = \<lparr>ref_id = ''example'', ref_version = ''1.0.0''\<rparr>,
      request_context = \<lparr>snapshot = JInt 1, snapshot_hash = ''sha256:1''\<rparr>,
      controls = None,
      submitted_at = None\<rparr>"

definition demo_env :: "int env" where
  "demo_env =
     \<lparr>sha256_hexdigest = (\<lambda>data. data),
      float_repr = int_repr,
      float_of_int = Some,
      float_less = (<),
      re_match = (\<lambda>p v.
        if p = ''[^@]+@example[.]com'' \<and> v = ''bob@example.com'' then Some True
        else if p = ''[^@]+@example[.]com'' \<and> v = ''bob@example.com.evil.org'' then Some True
        else if p = ''^[^@]+@example[.]com$'' \<and> v = ''bob@example.com'' then Some True
        else if p = ''^[^@]+@example[.]com$'' \<and> v = ''bob@example.com.evil.org''
          then Some False
        else None),
      json_loads = (\<lambda>raw. if raw = demo_raw then Some demo_obj
                          else if raw = mismatch_raw then Some mismatch_obj
                          else if raw = ''[ ]'' then Some (JArr []) else None),
      load_profile = (\<lambda>i v. if i = ''example'' \<and> v = ''1.0.0''
                             then Loaded demo_profile ''sha256:p''
                             else LoadRuntimeError (Some ''PROFILE_NOT_FOUND'')),
      append_audit_record = (\<lambda>r. True),
      utc_now_iso = (\<lambda>n. ''2026-01-01T00:00:00+00:00''),
      runtime = \<lparr>runtime_name = ''ecl-reference-runtime'', runtime_version = ''0.1.0'',
                 runtime_build = ''dev''\<rparr>\<rparr>"

text \<open>The same environment with an audit log whose first append of the invocation raises.\<close>

definition failing_audit_env :: "int env" where
  "failing_audit_env =
     demo_env\<lparr>append_audit_record := (\<lambda>r. rec_reason_code r = ''INTERNAL_ERROR'')\<rparr>"

text \<open>A call of \<open>storage.put\<close>, which \<open>demo_profile\<close> permits twice.\<close>

definition storage_request :: "int ExecutionRequest" where
  "storage_request = demo_request\<lparr>tool := \<lparr>call_name = ''storage.put'', call_args = JObj []\<rparr>\<rparr>"

text \<open>A rule of type \<open>number\<close> and a call whose argument is \<open>true\<close>.\<close>

definition number_permit :: "'f ToolPermit" where
  "number_permit =
     \<lparr>permit_name = ''counter.set'',
      required_controls = \<lparr>requires_approval_token = False\<rparr>,
      constraints = Some \<lparr>arg_rules =
        [\<lparr>path = ''$.n'', rule_type = ''number'', pattern = None, max_len = None,
          enum = None, rule_min = None, rule_max = None\<rparr>]\<rparr>\<rparr>"

definition bool_request :: "int ExecutionRequest" where
  "bool_request =
     demo_request\<lparr>tool := \<lparr>call_name = ''counter.set'',
                             call_args = JObj [(''n'', JBool True)]\<rparr>\<rparr>"

text \<open>
  A rule whose path names a field inside a field, a call that has this nested field, and
  a call with a top-level key that is spelt like the path.
\<close>

definition nested_path_permit :: "int ToolPermit" where
  "nested_path_permit =
     \<lparr>permit_name = ''email.send'',
      required_controls = \<lparr>requires_approval_token = False\<rparr>,
      constraints = Some \<lparr>arg_rules =
        [\<lparr>path = ''$.to.domain'', rule_type = ''string'', pattern = None, max_len = None,
          enum = None, rule_min = None, rule_max = None\<rparr>]\<rparr>\<rparr>"

definition nested_args_request :: "int ExecutionRequest" where
  "nested_args_request =
     demo_request\<lparr>tool := \<lparr>call_name = ''email.send'',
                             call_args = JObj [(''to'', JObj [(''domain'', JStr ''example.com'')])]\<rparr>\<rparr>"

definition dotted_key_request :: "int ExecutionRequest" where
  "dotted_key_request =
     demo_request\<lparr>tool := \<lparr>call_name = ''email.send'',
                             call_args = JObj [(''to.domain'', JStr ''example.com'')]\<rparr>\<rparr>"

text \<open>The same value with the keys of both of its dicts in another order.\<close>

definition nested_a :: "int json" where
  "nested_a = JObj [(''b'', JInt 1), (''a'', JObj [(''y'', JNull), (''x'', JBool True)])]"

definition nested_b :: "int json" where
  "nested_b = JObj [(''a'', JObj [(''x'', JBool True), (''y'', JNull)]), (''b'', JInt 1)]"

section \<open>The allowlist\<close>

lemma find_tool_permit_in_append:
  "\<forall>q\<in>set pre. permit_name q \<noteq> n \<Longrightarrow> permit_name p = n \<Longrightarrow>
     find_tool_permit_in (pre @ p # post) n = Some p"
  by (induction pre) auto

text \<open>
  C9. Where \<open>allowed_tools\<close> holds several permits with the name of the requested tool,
  the first of them in list order is the one found, and the decision of the enforcement
  phase is the one its required controls and its constraints give: the permits after it
  do not occur in the result.
\<close>

theorem first_permit_governs:
  assumes "allowed_tools prof = pre @ p # post"
    and "\<forall>q\<in>set pre. permit_name q \<noteq> call_name (tool req)"
    and "permit_name p = call_name (tool req)"
  shows "find_tool_permit prof (call_name (tool req)) = Some p \<and>
         enforce E req prof rh ph =
           (case require_controls req p of
              Some rc \<Rightarrow> deny_decision E rc rh (ref_id (profile req)) (ref_version (profile req))
                           ph (runtime E)
            | None \<Rightarrow>
                (case enforce_constraints E req p of
                   Some rc2 \<Rightarrow> deny_decision E rc2 rh (ref_id (profile req))
                                 (ref_version (profile req)) ph (runtime E)
                 | None \<Rightarrow> allow_decision E rh (ref_id (profile req))
                             (ref_version (profile req)) ph (call_name (tool req))
                             (call_args (tool req)) (runtime E)))"
proof -
  have f: "find_tool_permit prof (call_name (tool req)) = Some p"
    using assms by (simp add: find_tool_permit_def find_tool_permit_in_append)
  then show ?thesis
    by (simp add: enforce_def Let_def)
qed

text \<open>
  In \<open>demo_profile\<close> the first permit of \<open>storage.put\<close> requires the approval token and
  the second does not: a call without the token is denied.
\<close>

theorem first_permit_governs_witness:
  "find_tool_permit demo_profile ''storage.put'' = Some (allowed_tools demo_profile ! 1) \<and>
   reason_code (enforce demo_env storage_request demo_profile ''sha256:r'' ''sha256:p'')
     = CONTROL_REQUIRED \<and>
   decision_type (enforce demo_env storage_request demo_profile ''sha256:r'' ''sha256:p'')
     = DENY"
proof -
  have t: "call_name (tool storage_request) = ''storage.put''"
    by (simp add: storage_request_def)
  have a: "allowed_tools demo_profile =
             [allowed_tools demo_profile ! 0] @ (allowed_tools demo_profile ! 1)
               # [allowed_tools demo_profile ! 2]"
    by (simp add: demo_profile_def)
  have b: "\<forall>q\<in>set [allowed_tools demo_profile ! 0].
             permit_name q \<noteq> call_name (tool storage_request)"
    by (simp add: demo_profile_def demo_rule_def t)
  have c: "permit_name (allowed_tools demo_profile ! 1) = call_name (tool storage_request)"
    by (simp add: demo_profile_def t)
  have r: "require_controls storage_request (allowed_tools demo_profile ! 1)
             = Some CONTROL_REQUIRED"
    by (simp add: require_controls_def storage_request_def demo_request_def demo_profile_def)
  show ?thesis
    using first_permit_governs [OF a b c, of demo_env "''sha256:r''" "''sha256:p''"] r
    by (simp add: t deny_decision_def)
qed

section \<open>Argument constraints\<close>

text \<open>
  C3. The claim is that a rule of type \<open>number\<close> rejects a boolean argument with
  \<open>CONSTRAINT_VIOLATION\<close>. The type check of the code is \<open>isinstance(v, (int, float))\<close>,
  which a Python \<open>bool\<close> passes: on the argument \<open>true\<close> a rule of type \<open>number\<close>
  without bounds reports no violation, in every environment.
\<close>

theorem number_rule_accepts_bool:
  "enforce_constraints E bool_request number_permit = None"
  by (simp add: enforce_constraints_def bool_request_def number_permit_def check_rule_def
      get_arg_value_def check_number_def)

text \<open>
  What the guard of \<open>_get_arg_value\<close> does catch: a path that does not start with \<open>$.\<close>,
  and arguments that are not a dict.
\<close>

lemma check_rule_bad_path:
  "take 2 (path rule) \<noteq> ''$.'' \<Longrightarrow> check_rule E args rule = Inl ValueError"
  by (simp add: check_rule_def get_arg_value_def)

lemma check_rule_not_object:
  "\<forall>kvs. args \<noteq> JObj kvs \<Longrightarrow> check_rule E args rule = Inl ValueError"
  by (cases args) (auto simp: check_rule_def get_arg_value_def)

text \<open>
  C7. The claim is that every path other than \<open>$.<key>\<close>, with \<open><key>\<close> one top-level
  field, yields \<open>CONSTRAINT_EVAL_ERROR\<close>, as the docstring of \<open>_get_arg_value\<close> says
  (\<open>Anything else -> error\<close>). The code only tests that the path starts with \<open>$.\<close> and
  looks the rest up as one key: for the path \<open>$.to.domain\<close> it looks up the top-level key
  \<open>to.domain\<close>. On a call that has the nested field the rule yields
  \<open>CONSTRAINT_VIOLATION\<close>, and on a call with a top-level key of that spelling the rule
  passes; neither is \<open>CONSTRAINT_EVAL_ERROR\<close>.
\<close>

theorem nested_path_is_not_eval_error:
  "enforce_constraints E nested_args_request nested_path_permit = Some CONSTRAINT_VIOLATION \<and>
   enforce_constraints E dotted_key_request nested_path_permit = None"
  by (simp add: enforce_constraints_def nested_args_request_def dotted_key_request_def
      nested_path_permit_def check_rule_def get_arg_value_def check_string_def)




section \<open>Canonical form\<close>

lemma insort_key_rel:
  "list_all2 R xs ys \<Longrightarrow> R a b \<Longrightarrow> (\<And>u v. R u v \<Longrightarrow> f u = f v) \<Longrightarrow>
     list_all2 R (insort_key f a xs) (insort_key f b ys)"
proof (induction xs ys rule: list_all2_induct)
  case Nil
  then show ?case by simp
next
  case (Cons x xs y ys)
  have "f a = f b" "f x = f y"
    using Cons.prems Cons.hyps by blast+
  then show ?case
    using Cons by simp
qed

lemma sort_key_rel:
  "list_all2 R xs ys \<Longrightarrow> (\<And>u v. R u v \<Longrightarrow> f u = f v) \<Longrightarrow>
     list_all2 R (sort_key f xs) (sort_key f ys)"
proof (induction xs ys rule: list_all2_induct)
  case Nil
  then show ?case by simp
next
  case (Cons x xs y ys)
  then show ?case
    by (simp add: insort_key_rel)
qed

lemma sort_key_mset_eq:
  assumes "mset xs = mset ys" and "distinct (map f xs)"
  shows "sort_key f xs = sort_key f ys"
proof (rule sort_key_inj_key_eq)
  show "mset xs = mset (sort_key f ys)"
    using assms by simp
  show "inj_on f (set xs)"
    using assms by (simp add: distinct_map)
  show "sorted (map f (sort_key f ys))"
    by simp
qed

lemma map_eq_of_rel:
  "list_all2 (\<lambda>a b. g a = h b) xs ys \<Longrightarrow> map g xs = map h ys"
  by (induction xs ys rule: list_all2_induct) auto

lemma dumps_key_perm:
  "key_perm x y \<Longrightarrow> wf_json x \<Longrightarrow> dumps fr x = dumps fr y"
proof (induction rule: key_perm.induct)
  case (same x)
  show ?case by simp
next
  case (in_list xs ys)
  have "list_all2 (\<lambda>a b. dumps fr a = dumps fr b) xs ys"
    using in_list.IH in_list.prems
    by (auto simp: list_all_iff elim!: list.rel_mono_strong)
  then have "map (dumps fr) xs = map (dumps fr) ys"
    by (rule map_eq_of_rel)
  then show ?case by simp
next
  case (in_dict kvs mid kvs')
  let ?R = "\<lambda>a b. fst a = fst b \<and> dumps fr (snd a) = dumps fr (snd b)"
  let ?g = "\<lambda>kv. encode_basestring (fst kv) @ '':'' @ dumps fr (snd kv)"
  have rel: "list_all2 ?R kvs mid"
    using in_dict.IH in_dict.prems
    by (auto simp: list_all_iff elim!: list.rel_mono_strong)
  then have keys: "map fst kvs = map fst mid"
    by (induction kvs mid rule: list_all2_induct) auto
  have "distinct (map fst mid)"
    using in_dict.prems keys by simp
  then have s1: "sort_key fst mid = sort_key fst kvs'"
    using in_dict.hyps by (intro sort_key_mset_eq) auto
  have "list_all2 ?R (sort_key fst kvs) (sort_key fst mid)"
    using rel by (rule sort_key_rel) simp
  then have "list_all2 (\<lambda>a b. ?g a = ?g b) (sort_key fst kvs) (sort_key fst mid)"
    by (rule list_all2_mono) simp
  then have "map ?g (sort_key fst kvs) = map ?g (sort_key fst kvs')"
    unfolding s1 by (rule map_eq_of_rel)
  then show ?case by simp
qed

text \<open>
  C8. Reordering the keys of any dict nested anywhere in a JSON value changes neither its
  canonical bytes nor its hash: \<open>json.dumps\<close> with \<open>sort_keys\<close> writes the items of every
  dict in the order of their keys. The value is one that Python can hold, its dicts
  having distinct keys.
\<close>

theorem key_order_does_not_change_hash:
  assumes "key_perm x y" and "wf_json x"
  shows "canonical_json_bytes E x = canonical_json_bytes E y \<and> hash_json E x = hash_json E y"
  using dumps_key_perm [OF assms] by (simp add: canonical_json_bytes_def hash_json_def)

theorem key_order_does_not_change_hash_witness:
  "nested_a \<noteq> nested_b \<and> key_perm nested_a nested_b \<and> wf_json nested_a \<and>
   hash_json demo_env nested_a = hash_json demo_env nested_b"
proof -
  have inner: "key_perm (JObj [(''y'', JNull), (''x'', JBool True)] :: int json)
                 (JObj [(''x'', JBool True), (''y'', JNull)])"
    by (rule key_perm.in_dict [where mid = "[(''y'', JNull), (''x'', JBool True)]"])
       (simp_all add: key_perm.same)
  have k: "key_perm nested_a nested_b"
    unfolding nested_a_def nested_b_def
    by (rule key_perm.in_dict
          [where mid = "[(''b'', JInt 1), (''a'', JObj [(''x'', JBool True), (''y'', JNull)])]"])
       (simp_all add: key_perm.same inner)
  have w: "wf_json nested_a"
    by (simp add: nested_a_def)
  have d: "nested_a \<noteq> nested_b"
    by (simp add: nested_a_def nested_b_def)
  show ?thesis
    using key_order_does_not_change_hash [OF k w, of demo_env] k w d by simp
qed


section \<open>The paths of \<open>execute\<close>\<close>

text \<open>
  A decision returned by the body of the \<open>try\<close> is the one of the branch taken: parse
  error, schema error, context mismatch, loader error or enforcement.
\<close>

lemma audit_and_return_Inr: "audit_and_return E L r h d = Inr d' \<Longrightarrow> d' = d"
  by (auto simp: audit_and_return_def Let_def split: if_splits)

lemma audit_and_return_Inl:
  "audit_and_return E L r h d = Inl L' \<Longrightarrow> L' = L\<lparr>l_clock := l_clock L + 2\<rparr>"
  by (auto simp: audit_and_return_def Let_def split: if_splits)

lemma audit_and_return_ok:
  "\<forall>r. append_audit_record E r \<Longrightarrow> audit_and_return E L r h d = Inr d"
  by (simp add: audit_and_return_def Let_def)

lemma execute_try_Inr_cases:
  assumes "execute_try E raw = Inr d"
  obtains
    (parse) "json_loads E raw = None"
      "d = deny_decision E REQUEST_PARSE_ERROR (sha256_prefixed E raw) ''UNKNOWN'' ''UNKNOWN''
             (fallback_profile_ref_hash E) (runtime E)"
  | (schema) obj where "json_loads E raw = Some obj" "model_validate obj = None"
      "d = deny_decision E REQUEST_SCHEMA_INVALID (hash_json E obj) ''UNKNOWN'' ''UNKNOWN''
             (fallback_profile_ref_hash E) (runtime E)"
  | (ctx) obj req where "json_loads E raw = Some obj" "model_validate obj = Some req"
      "snapshot_hash (request_context req) \<noteq> hash_json E (snapshot (request_context req))"
      "d = deny_decision E CTX_HASH_MISMATCH (hash_json E (model_dump req))
             (ref_id (profile req)) (ref_version (profile req))
             (fallback_profile_ref_hash E) (runtime E)"
  | (load) obj req a where "json_loads E raw = Some obj" "model_validate obj = Some req"
      "snapshot_hash (request_context req) = hash_json E (snapshot (request_context req))"
      "load_profile E (ref_id (profile req)) (ref_version (profile req)) = LoadRuntimeError a"
      "d = deny_decision E
             (case value2member (case a of None \<Rightarrow> reason_value PROFILE_PARSE_ERROR | Some m \<Rightarrow> m)
              of Some r \<Rightarrow> r | None \<Rightarrow> PROFILE_PARSE_ERROR)
             (hash_json E (model_dump req))
             (ref_id (profile req)) (ref_version (profile req))
             (fallback_profile_ref_hash E) (runtime E)"
  | (enforce) obj req pm ph where "json_loads E raw = Some obj" "model_validate obj = Some req"
      "snapshot_hash (request_context req) = hash_json E (snapshot (request_context req))"
      "load_profile E (ref_id (profile req)) (ref_version (profile req)) = Loaded pm ph"
      "d = enforce E req pm (hash_json E (model_dump req)) ph"
proof (cases "json_loads E raw")
  case None
  with assms have "d = deny_decision E REQUEST_PARSE_ERROR (sha256_prefixed E raw) ''UNKNOWN''
      ''UNKNOWN'' (fallback_profile_ref_hash E) (runtime E)"
    by (auto simp: execute_try_def Let_def dest!: audit_and_return_Inr)
  with None show ?thesis by (rule parse)
next
  case (Some obj)
  note obj = this
  show ?thesis
  proof (cases "model_validate obj")
    case None
    with assms obj have "d = deny_decision E REQUEST_SCHEMA_INVALID (hash_json E obj) ''UNKNOWN''
        ''UNKNOWN'' (fallback_profile_ref_hash E) (runtime E)"
      by (auto simp: execute_try_def Let_def hash_json_def dest!: audit_and_return_Inr)
    with obj None show ?thesis by (rule schema)
  next
    case (Some req)
    note req = this
    show ?thesis
    proof (cases "snapshot_hash (request_context req) = hash_json E (snapshot (request_context req))")
      case False
      with assms obj req have "d = deny_decision E CTX_HASH_MISMATCH (hash_json E (model_dump req))
             (ref_id (profile req)) (ref_version (profile req))
             (fallback_profile_ref_hash E) (runtime E)"
        by (auto simp: execute_try_def Let_def dest!: audit_and_return_Inr)
      with obj req False show ?thesis by (rule ctx)
    next
      case True
      note ok = this
      show ?thesis
      proof (cases "load_profile E (ref_id (profile req)) (ref_version (profile req))")
        case (Loaded pm ph)
        with assms obj req ok have "d = enforce E req pm (hash_json E (model_dump req)) ph"
          by (auto simp: execute_try_def Let_def dest!: audit_and_return_Inr)
        with obj req ok Loaded show ?thesis by (rule enforce)
      next
        case (LoadRuntimeError a)
        with assms obj req ok have "d = deny_decision E
             (case value2member (case a of None \<Rightarrow> reason_value PROFILE_PARSE_ERROR | Some m \<Rightarrow> m)
              of Some r \<Rightarrow> r | None \<Rightarrow> PROFILE_PARSE_ERROR)
             (hash_json E (model_dump req))
             (ref_id (profile req)) (ref_version (profile req))
             (fallback_profile_ref_hash E) (runtime E)"
          by (auto simp: execute_try_def Let_def dest!: audit_and_return_Inr)
        with obj req ok LoadRuntimeError show ?thesis by (rule load)
      next
        case LoadOtherError
        with assms obj req ok show ?thesis
          by (auto simp: execute_try_def Let_def)
      qed
    qed
  qed
qed

text \<open>The local variables with which an exception leaves the body of the \<open>try\<close>.\<close>

lemma execute_try_Inl_cases:
  assumes "execute_try E raw = Inl L"
  obtains
    (early) "json_loads E raw = None \<or>
             (\<exists>obj. json_loads E raw = Some obj \<and> model_validate obj = None)"
      "l_profile_id L = ''UNKNOWN''" "l_profile_version L = ''UNKNOWN''"
      "l_profile_ref_hash L = fallback_profile_ref_hash E"
  | (valid) obj req where "json_loads E raw = Some obj" "model_validate obj = Some req"
      "l_profile_id L = ref_id (profile req)" "l_profile_version L = ref_version (profile req)"
      "l_profile_ref_hash L = fallback_profile_ref_hash E \<or>
       (snapshot_hash (request_context req) = hash_json E (snapshot (request_context req)) \<and>
        (\<exists>pm. load_profile E (ref_id (profile req)) (ref_version (profile req))
                = Loaded pm (l_profile_ref_hash L)))"
proof (cases "json_loads E raw")
  case None
  with assms have "l_profile_id L = ''UNKNOWN'' \<and> l_profile_version L = ''UNKNOWN'' \<and>
      l_profile_ref_hash L = fallback_profile_ref_hash E"
    by (auto simp: execute_try_def Let_def dest!: audit_and_return_Inl)
  with None show ?thesis by (intro early) auto
next
  case (Some obj)
  note obj = this
  show ?thesis
  proof (cases "model_validate obj")
    case None
    with assms obj have "l_profile_id L = ''UNKNOWN'' \<and> l_profile_version L = ''UNKNOWN'' \<and>
        l_profile_ref_hash L = fallback_profile_ref_hash E"
      by (auto simp: execute_try_def Let_def dest!: audit_and_return_Inl)
    with obj None show ?thesis by (intro early) auto
  next
    case (Some req)
    with assms obj have "l_profile_id L = ref_id (profile req) \<and>
        l_profile_version L = ref_version (profile req) \<and>
        (l_profile_ref_hash L = fallback_profile_ref_hash E \<or>
         (snapshot_hash (request_context req) = hash_json E (snapshot (request_context req)) \<and>
          (\<exists>pm. load_profile E (ref_id (profile req)) (ref_version (profile req))
                  = Loaded pm (l_profile_ref_hash L))))"
      by (auto simp: execute_try_def Let_def split: if_splits load_result.splits
          dest!: audit_and_return_Inl)
    with obj Some show ?thesis by (intro valid) auto
  qed
qed

lemma execute_Some:
  assumes "execute E raw = Some d"
  shows "execute_try E raw = Inr d \<or>
         (\<exists>L. execute_try E raw = Inl L \<and>
              d = deny_decision E INTERNAL_ERROR (sha256_prefixed E raw) (l_profile_id L)
                    (l_profile_version L) (l_profile_ref_hash L) (runtime E))"
  using assms
  by (auto simp: execute_def Let_def split: sum.splits dest!: audit_and_return_Inr)


section \<open>The fields of a decision\<close>

lemma deny_decision_fields [simp]:
  "decision_type (deny_decision E rc rh i v ph rt) = DENY"
  "reason_code (deny_decision E rc rh i v ph rt) = rc"
  "request_hash (deny_decision E rc rh i v ph rt) = rh"
  "provenance_id (deny_decision E rc rh i v ph rt) =
     provenance_id_from_inputs E rh ph (runtime_version rt)"
  "decision_profile (deny_decision E rc rh i v ph rt) =
     \<lparr>info_id = i, info_version = v, profile_ref_hash = ph\<rparr>"
  "approved_call (deny_decision E rc rh i v ph rt) = None"
  by (simp_all add: deny_decision_def)

lemma allow_decision_fields [simp]:
  "decision_type (allow_decision E rh i v ph n a rt) = ALLOW"
  "reason_code (allow_decision E rh i v ph n a rt) = OK"
  "request_hash (allow_decision E rh i v ph n a rt) = rh"
  "provenance_id (allow_decision E rh i v ph n a rt) =
     provenance_id_from_inputs E rh ph (runtime_version rt)"
  "decision_profile (allow_decision E rh i v ph n a rt) =
     \<lparr>info_id = i, info_version = v, profile_ref_hash = ph\<rparr>"
  "approved_call (allow_decision E rh i v ph n a rt) = Some \<lparr>tool_name = n, tool_args = a\<rparr>"
  by (simp_all add: allow_decision_def)

lemma enforce_allow:
  "decision_type (enforce E req pm rh ph) = ALLOW \<longleftrightarrow>
     (\<exists>permit. find_tool_permit pm (call_name (tool req)) = Some permit \<and>
        require_controls req permit = None \<and> enforce_constraints E req permit = None)"
  by (auto simp: enforce_def Let_def split: option.splits)

lemma enforce_not_allow:
  "decision_type (enforce E req pm rh ph) \<noteq> ALLOW \<Longrightarrow>
     decision_type (enforce E req pm rh ph) = DENY \<and> approved_call (enforce E req pm rh ph) = None"
  by (auto simp: enforce_def Let_def split: option.splits)

lemma enforce_is_allow:
  "decision_type (enforce E req pm rh ph) = ALLOW \<Longrightarrow>
     reason_code (enforce E req pm rh ph) = OK \<and>
     approved_call (enforce E req pm rh ph) =
       Some \<lparr>tool_name = call_name (tool req), tool_args = call_args (tool req)\<rparr>"
  by (auto simp: enforce_def Let_def split: option.splits)

lemma enforce_fields [simp]:
  "request_hash (enforce E req pm rh ph) = rh"
  "decision_profile (enforce E req pm rh ph) =
     \<lparr>info_id = ref_id (profile req), info_version = ref_version (profile req),
      profile_ref_hash = ph\<rparr>"
  "provenance_id (enforce E req pm rh ph) =
     provenance_id_from_inputs E rh ph (runtime_version (runtime E))"
  by (auto simp: enforce_def Let_def split: option.splits)

section \<open>Fail-closed decisions\<close>

text \<open>
  C1. Every decision that \<open>execute\<close> returns is \<open>ALLOW\<close> or \<open>DENY\<close>; one whose reason
  code is not \<open>OK\<close> is \<open>DENY\<close>; and \<open>ALLOW\<close> comes with \<open>OK\<close> and on one path only: the
  body parses, the request validates, the snapshot hash matches, the profile loads, a
  permit is found, the required controls are satisfied and every constraint passes.
\<close>

theorem fail_closed:
  assumes "execute E raw = Some d"
  shows "(reason_code d \<noteq> OK \<longrightarrow> decision_type d = DENY) \<and>
         (decision_type d = ALLOW \<or> decision_type d = DENY) \<and>
         (decision_type d = ALLOW \<longrightarrow>
            reason_code d = OK \<and>
            (\<exists>obj req pm ph permit.
               json_loads E raw = Some obj \<and> model_validate obj = Some req \<and>
               snapshot_hash (request_context req) = hash_json E (snapshot (request_context req)) \<and>
               load_profile E (ref_id (profile req)) (ref_version (profile req)) = Loaded pm ph \<and>
               find_tool_permit pm (call_name (tool req)) = Some permit \<and>
               require_controls req permit = None \<and>
               enforce_constraints E req permit = None))"
proof -
  from execute_Some [OF assms] show ?thesis
  proof
    assume "execute_try E raw = Inr d"
    then show ?thesis
    proof (cases rule: execute_try_Inr_cases)
      case (enforce obj req pm ph)
      show ?thesis
      proof (cases "decision_type d = ALLOW")
        case True
        with enforce show ?thesis
          using enforce_allow [of E req pm "hash_json E (model_dump req)" ph]
            enforce_is_allow [of E req pm "hash_json E (model_dump req)" ph]
          by auto
      next
        case False
        with enforce show ?thesis
          using enforce_not_allow [of E req pm "hash_json E (model_dump req)" ph] by auto
      qed
    qed simp_all
  next
    assume "\<exists>L. execute_try E raw = Inl L \<and>
              d = deny_decision E INTERNAL_ERROR (sha256_prefixed E raw) (l_profile_id L)
                    (l_profile_version L) (l_profile_ref_hash L) (runtime E)"
    then show ?thesis by auto
  qed
qed

text \<open>The demo request is allowed; the body \<open>[ ]\<close> is denied as no request.\<close>

lemma demo_allow:
  "execute demo_env demo_raw \<noteq> None \<and>
   decision_type (the (execute demo_env demo_raw)) = ALLOW"
  by code_simp

lemma demo_schema_invalid:
  "execute demo_env ''[ ]'' \<noteq> None \<and>
   reason_code (the (execute demo_env ''[ ]'')) = REQUEST_SCHEMA_INVALID"
  by code_simp

theorem fail_closed_witness:
  "execute demo_env demo_raw \<noteq> None \<and>
   decision_type (the (execute demo_env demo_raw)) = ALLOW \<and>
   reason_code (the (execute demo_env demo_raw)) = OK \<and>
   execute demo_env ''[ ]'' \<noteq> None \<and>
   reason_code (the (execute demo_env ''[ ]'')) = REQUEST_SCHEMA_INVALID \<and>
   decision_type (the (execute demo_env ''[ ]'')) = DENY"
proof -
  have a: "execute demo_env demo_raw = Some (the (execute demo_env demo_raw))"
    using demo_allow by simp
  have b: "execute demo_env ''[ ]'' = Some (the (execute demo_env ''[ ]''))"
    using demo_schema_invalid by simp
  show ?thesis
    using fail_closed [OF a] fail_closed [OF b] demo_allow demo_schema_invalid by simp
qed

section \<open>The approved call\<close>

lemma validate_str_Some: "validate_str j = Some s \<Longrightarrow> j = Some (JStr s)"
  by (erule validate_str.elims) (auto split: if_splits)

lemma validate_ToolCall_Some:
  "validate_ToolCall j = Some tc \<Longrightarrow>
     \<exists>kvs. j = Some (JObj kvs) \<and> map_of kvs ''name'' = Some (JStr (call_name tc)) \<and>
           map_of kvs ''args'' = Some (call_args tc)"
  by (erule validate_ToolCall.elims)
     (auto split: if_splits Option.bind_splits dest!: validate_str_Some)

lemma model_validate_tool:
  assumes "model_validate obj = Some req"
  shows "Option.bind (member ''tool'' obj) (member ''name'') = Some (JStr (call_name (tool req)))
         \<and> Option.bind (member ''tool'' obj) (member ''args'') = Some (call_args (tool req))"
proof -
  from assms obtain kvs where obj: "obj = JObj kvs"
    by (cases obj) auto
  from assms obj have "validate_ToolCall (map_of kvs ''tool'') = Some (tool req)"
    by (auto split: if_splits Option.bind_splits)
  from validate_ToolCall_Some [OF this] obj show ?thesis
    by (auto simp: member_def)
qed

text \<open>
  C2. A decision that \<open>execute\<close> returns passes the validator of \<open>ExecutionDecision\<close>: it
  carries \<open>approved_call\<close> if and only if it is \<open>ALLOW\<close>. Then the approved call has the
  name and the arguments of \<open>tool\<close> in the parsed body, the same value and so the same
  canonical bytes.
\<close>

theorem approved_call_iff_allow:
  assumes "execute E raw = Some d"
  shows "allow_requires_approved_call d \<and>
         (approved_call d \<noteq> None \<longleftrightarrow> decision_type d = ALLOW) \<and>
         (decision_type d = ALLOW \<longrightarrow>
            (\<exists>obj ac. json_loads E raw = Some obj \<and> approved_call d = Some ac \<and>
               Option.bind (member ''tool'' obj) (member ''name'') = Some (JStr (tool_name ac)) \<and>
               Option.bind (member ''tool'' obj) (member ''args'') = Some (tool_args ac) \<and>
               map_option (canonical_json_bytes E)
                   (Option.bind (member ''tool'' obj) (member ''args''))
                 = Some (canonical_json_bytes E (tool_args ac))))"
proof -
  from execute_Some [OF assms] show ?thesis
  proof
    assume "execute_try E raw = Inr d"
    then show ?thesis
    proof (cases rule: execute_try_Inr_cases)
      case (enforce obj req pm ph)
      show ?thesis
      proof (cases "decision_type d = ALLOW")
        case True
        with enforce show ?thesis
          using enforce_is_allow [of E req pm "hash_json E (model_dump req)" ph]
            model_validate_tool [of obj req]
          by (auto simp: allow_requires_approved_call_def)
      next
        case False
        with enforce show ?thesis
          using enforce_not_allow [of E req pm "hash_json E (model_dump req)" ph]
          by (auto simp: allow_requires_approved_call_def)
      qed
    qed (simp_all add: allow_requires_approved_call_def)
  next
    assume "\<exists>L. execute_try E raw = Inl L \<and>
              d = deny_decision E INTERNAL_ERROR (sha256_prefixed E raw) (l_profile_id L)
                    (l_profile_version L) (l_profile_ref_hash L) (runtime E)"
    then show ?thesis by (auto simp: allow_requires_approved_call_def)
  qed
qed

lemma demo_approved:
  "approved_call (the (execute demo_env demo_raw)) =
     Some \<lparr>tool_name = ''email.send'',
           tool_args = JObj [(''to'', JStr ''bob@example.com''), (''subject'', JStr ''hi'')]\<rparr>"
  by code_simp

theorem approved_call_iff_allow_witness:
  "execute demo_env demo_raw \<noteq> None \<and>
   decision_type (the (execute demo_env demo_raw)) = ALLOW \<and>
   allow_requires_approved_call (the (execute demo_env demo_raw)) \<and>
   approved_call (the (execute demo_env demo_raw)) =
     Some \<lparr>tool_name = ''email.send'',
           tool_args = JObj [(''to'', JStr ''bob@example.com''), (''subject'', JStr ''hi'')]\<rparr>"
proof -
  have a: "execute demo_env demo_raw = Some (the (execute demo_env demo_raw))"
    using demo_allow by simp
  show ?thesis
    using approved_call_iff_allow [OF a] demo_allow demo_approved by simp
qed


section \<open>Decisions before the profile is loaded\<close>

lemma fallback_value: "fallback_profile_ref_hash E = sha256_prefixed E ''{}''"
  by (simp add: fallback_profile_ref_hash_def hash_json_def canonical_json_bytes_def
      utf8_encode_def utf8_char_def)

text \<open>
  C10. A decision returned for a body that fails to parse or fails schema validation has
  the profile id \<open>UNKNOWN\<close>, the version \<open>UNKNOWN\<close> and the fallback reference hash; one
  returned for a request whose snapshot hash does not match has the profile id and
  version of the request and the fallback reference hash. The fallback is the digest of
  the canonical empty object \<open>{}\<close>.
\<close>

theorem profile_fields_before_loading:
  assumes "execute E raw = Some d"
  shows "(json_loads E raw = None \<or>
          (\<exists>obj. json_loads E raw = Some obj \<and> model_validate obj = None)
            \<longrightarrow> decision_profile d =
                  \<lparr>info_id = ''UNKNOWN'', info_version = ''UNKNOWN'',
                   profile_ref_hash = fallback_profile_ref_hash E\<rparr>) \<and>
         (\<forall>obj req. json_loads E raw = Some obj \<and> model_validate obj = Some req \<and>
            snapshot_hash (request_context req) \<noteq> hash_json E (snapshot (request_context req))
            \<longrightarrow> decision_profile d =
                  \<lparr>info_id = ref_id (profile req), info_version = ref_version (profile req),
                   profile_ref_hash = fallback_profile_ref_hash E\<rparr>) \<and>
         fallback_profile_ref_hash E = sha256_prefixed E ''{}''"
proof -
  from execute_Some [OF assms] have
    "(json_loads E raw = None \<or>
          (\<exists>obj. json_loads E raw = Some obj \<and> model_validate obj = None)
            \<longrightarrow> decision_profile d =
                  \<lparr>info_id = ''UNKNOWN'', info_version = ''UNKNOWN'',
                   profile_ref_hash = fallback_profile_ref_hash E\<rparr>) \<and>
         (\<forall>obj req. json_loads E raw = Some obj \<and> model_validate obj = Some req \<and>
            snapshot_hash (request_context req) \<noteq> hash_json E (snapshot (request_context req))
            \<longrightarrow> decision_profile d =
                  \<lparr>info_id = ref_id (profile req), info_version = ref_version (profile req),
                   profile_ref_hash = fallback_profile_ref_hash E\<rparr>)"
  proof
    assume "execute_try E raw = Inr d"
    then show ?thesis
      by (cases rule: execute_try_Inr_cases) auto
  next
    assume "\<exists>L. execute_try E raw = Inl L \<and>
              d = deny_decision E INTERNAL_ERROR (sha256_prefixed E raw) (l_profile_id L)
                    (l_profile_version L) (l_profile_ref_hash L) (runtime E)"
    then obtain L where L: "execute_try E raw = Inl L"
      and d: "d = deny_decision E INTERNAL_ERROR (sha256_prefixed E raw) (l_profile_id L)
                    (l_profile_version L) (l_profile_ref_hash L) (runtime E)"
      by blast
    from L show ?thesis
      by (cases rule: execute_try_Inl_cases) (auto simp: d)
  qed
  then show ?thesis
    using fallback_value [of E] by blast
qed

text \<open>The bodies \<open>{\<close>, \<open>[ ]\<close> and \<open>mismatch_raw\<close> take the three paths.\<close>

lemma demo_unparsed: "json_loads demo_env ''{'' = None \<and> execute demo_env ''{'' \<noteq> None"
  by code_simp

lemma demo_invalid:
  "json_loads demo_env ''[ ]'' = Some (JArr []) \<and> model_validate (JArr [] :: int json) = None \<and>
   execute demo_env ''[ ]'' \<noteq> None"
  by code_simp

lemma demo_mismatch:
  "json_loads demo_env mismatch_raw = Some mismatch_obj \<and>
   model_validate mismatch_obj =
     Some (demo_request\<lparr>request_context := \<lparr>snapshot = JInt 1, snapshot_hash = ''sha256:2''\<rparr>\<rparr>) \<and>
   hash_json demo_env (JInt 1) = ''sha256:1'' \<and>
   execute demo_env mismatch_raw \<noteq> None"
  by code_simp

lemma demo_fallback: "fallback_profile_ref_hash demo_env = ''sha256:{}''"
  by code_simp

theorem profile_fields_before_loading_witness:
  "decision_profile (the (execute demo_env ''{'')) =
     \<lparr>info_id = ''UNKNOWN'', info_version = ''UNKNOWN'', profile_ref_hash = ''sha256:{}''\<rparr> \<and>
   decision_profile (the (execute demo_env ''[ ]'')) =
     \<lparr>info_id = ''UNKNOWN'', info_version = ''UNKNOWN'', profile_ref_hash = ''sha256:{}''\<rparr> \<and>
   decision_profile (the (execute demo_env mismatch_raw)) =
     \<lparr>info_id = ''example'', info_version = ''1.0.0'', profile_ref_hash = ''sha256:{}''\<rparr>"
proof -
  have a: "execute demo_env ''{'' = Some (the (execute demo_env ''{''))"
    using demo_unparsed by simp
  have b: "execute demo_env ''[ ]'' = Some (the (execute demo_env ''[ ]''))"
    using demo_invalid by simp
  have c: "execute demo_env mismatch_raw = Some (the (execute demo_env mismatch_raw))"
    using demo_mismatch by simp
  have r: "ref_id (profile demo_request) = ''example''"
    "ref_version (profile demo_request) = ''1.0.0''"
    by (simp_all add: demo_request_def)
  show ?thesis
    using profile_fields_before_loading [OF a] profile_fields_before_loading [OF b]
      profile_fields_before_loading [OF c] demo_unparsed demo_invalid demo_mismatch
      demo_fallback r
    by simp
qed

section \<open>The request hash\<close>

text \<open>
  C4, as stated, fails: the body \<open>[ ]\<close> is valid JSON and no request, and the decision
  for it carries the hash of the canonical form \<open>[]\<close> of the parsed value, not the digest
  of the raw bytes.
\<close>

theorem schema_invalid_hash_counterexample:
  "json_loads demo_env ''[ ]'' = Some (JArr []) \<and>
   model_validate (JArr [] :: int json) = None \<and>
   map_option request_hash (execute demo_env ''[ ]'') = Some (hash_json demo_env (JArr [])) \<and>
   map_option request_hash (execute demo_env ''[ ]'') \<noteq> Some (sha256_prefixed demo_env ''[ ]'')"
  by code_simp

text \<open>
  C4, amended. For a body that fails to parse, the request hash is the digest of the raw
  bytes. For a body that is valid JSON and fails schema validation, it is \<open>hash_json\<close> of
  the parsed value, in a \<open>REQUEST_SCHEMA_INVALID\<close> decision. \<open>hash_json\<close> of the dump of
  the validated request is used only where schema validation succeeded, and there in
  every decision. The exception on both paths is the \<open>INTERNAL_ERROR\<close> decision of the
  \<open>except\<close> branch, which carries the digest of the raw bytes.
\<close>

theorem request_hash_by_path:
  assumes "execute E raw = Some d"
  shows "(json_loads E raw = None \<longrightarrow> request_hash d = sha256_prefixed E raw) \<and>
         (\<forall>obj. json_loads E raw = Some obj \<and> model_validate obj = None \<longrightarrow>
            reason_code d = REQUEST_SCHEMA_INVALID \<and> request_hash d = hash_json E obj \<or>
            reason_code d = INTERNAL_ERROR \<and> request_hash d = sha256_prefixed E raw) \<and>
         (\<forall>obj req. json_loads E raw = Some obj \<and> model_validate obj = Some req \<longrightarrow>
            request_hash d = hash_json E (model_dump req) \<or>
            reason_code d = INTERNAL_ERROR \<and> request_hash d = sha256_prefixed E raw)"
proof -
  from execute_Some [OF assms] show ?thesis
  proof
    assume "execute_try E raw = Inr d"
    then show ?thesis
      by (cases rule: execute_try_Inr_cases) auto
  next
    assume "\<exists>L. execute_try E raw = Inl L \<and>
              d = deny_decision E INTERNAL_ERROR (sha256_prefixed E raw) (l_profile_id L)
                    (l_profile_version L) (l_profile_ref_hash L) (runtime E)"
    then show ?thesis by auto
  qed
qed

lemma demo_validates:
  "json_loads demo_env demo_raw = Some demo_obj \<and> model_validate demo_obj = Some demo_request"
  by code_simp

lemma demo_reasons:
  "reason_code (the (execute demo_env ''[ ]'')) \<noteq> INTERNAL_ERROR \<and>
   reason_code (the (execute demo_env demo_raw)) \<noteq> INTERNAL_ERROR"
  by code_simp

theorem request_hash_by_path_witness:
  "request_hash (the (execute demo_env ''{'')) = sha256_prefixed demo_env ''{'' \<and>
   request_hash (the (execute demo_env ''[ ]'')) = hash_json demo_env (JArr []) \<and>
   request_hash (the (execute demo_env demo_raw)) = hash_json demo_env (model_dump demo_request)"
proof -
  have a: "execute demo_env ''{'' = Some (the (execute demo_env ''{''))"
    using demo_unparsed by simp
  have b: "execute demo_env ''[ ]'' = Some (the (execute demo_env ''[ ]''))"
    using demo_invalid by simp
  have c: "execute demo_env demo_raw = Some (the (execute demo_env demo_raw))"
    using demo_allow by simp
  show ?thesis
    using request_hash_by_path [OF a] request_hash_by_path [OF b] request_hash_by_path [OF c]
      demo_unparsed demo_invalid demo_validates demo_reasons
    by simp
qed


section \<open>Determinism of the provenance id\<close>

text \<open>Nothing but the audit record reads the clock, and nothing but the append the log.\<close>

lemma hashing_ignores_clock_and_log [simp]:
  "sha256_prefixed (E\<lparr>utc_now_iso := c, append_audit_record := a\<rparr>) = sha256_prefixed E"
  "canonical_json_bytes (E\<lparr>utc_now_iso := c, append_audit_record := a\<rparr>) = canonical_json_bytes E"
  "hash_json (E\<lparr>utc_now_iso := c, append_audit_record := a\<rparr>) = hash_json E"
  by (auto simp: fun_eq_iff sha256_prefixed_def sha256_hex_def canonical_json_bytes_def
      hash_json_def)

lemma assembly_ignores_clock_and_log [simp]:
  "fallback_profile_ref_hash (E\<lparr>utc_now_iso := c, append_audit_record := a\<rparr>)
     = fallback_profile_ref_hash E"
  "provenance_id_from_inputs (E\<lparr>utc_now_iso := c, append_audit_record := a\<rparr>)
     = provenance_id_from_inputs E"
  "deny_decision (E\<lparr>utc_now_iso := c, append_audit_record := a\<rparr>) = deny_decision E"
  "allow_decision (E\<lparr>utc_now_iso := c, append_audit_record := a\<rparr>) = allow_decision E"
  by (auto simp: fun_eq_iff fallback_profile_ref_hash_def provenance_id_from_inputs_def
      deny_decision_def allow_decision_def)

lemma to_float_ignores_clock_and_log [simp]:
  "to_float (E\<lparr>utc_now_iso := c, append_audit_record := a\<rparr>) v = to_float E v"
  by (cases v) auto

lemma check_string_ignores_clock_and_log [simp]:
  "check_string (E\<lparr>utc_now_iso := c, append_audit_record := a\<rparr>) rule v = check_string E rule v"
  by (simp add: check_string_def cong: if_cong option.case_cong json.case_cong)

lemma check_number_ignores_clock_and_log [simp]:
  "check_number (E\<lparr>utc_now_iso := c, append_audit_record := a\<rparr>) rule v = check_number E rule v"
  by (auto simp: check_number_def split: option.splits sum.splits bool.splits)

lemma check_rule_ignores_clock_and_log [simp]:
  "check_rule (E\<lparr>utc_now_iso := c, append_audit_record := a\<rparr>) args rule
     = check_rule E args rule"
  by (simp add: check_rule_def split: sum.splits)

lemma check_rules_ignores_clock_and_log [simp]:
  "check_rules (E\<lparr>utc_now_iso := c, append_audit_record := a\<rparr>) args rules
     = check_rules E args rules"
  by (induction rules) (auto split: sum.splits option.splits)

lemma enforce_constraints_ignores_clock_and_log [simp]:
  "enforce_constraints (E\<lparr>utc_now_iso := c, append_audit_record := a\<rparr>) req permit
     = enforce_constraints E req permit"
  by (simp add: enforce_constraints_def cong: if_cong option.case_cong)

lemma enforce_ignores_clock_and_log [simp]:
  "enforce (E\<lparr>utc_now_iso := c, append_audit_record := a\<rparr>) req pm rh ph
     = enforce E req pm rh ph"
  by (simp add: enforce_def Let_def cong: option.case_cong)

lemma execute_try_ok:
  assumes "\<forall>r. append_audit_record E r" and "\<forall>r. a r"
  shows "execute_try (E\<lparr>utc_now_iso := c, append_audit_record := a\<rparr>) raw = execute_try E raw"
  using assms
  by (simp add: execute_try_def Let_def audit_and_return_ok
      split: option.splits load_result.splits)

lemma execute_ok:
  assumes "\<forall>r. append_audit_record E r" and "\<forall>r. a r"
  shows "execute (E\<lparr>utc_now_iso := c, append_audit_record := a\<rparr>) raw = execute E raw"
    and "execute E raw \<noteq> None"
  using assms
  by (simp_all add: execute_def execute_try_ok Let_def audit_and_return_ok split: sum.splits)

text \<open>
  C5, as stated, fails: two invocations on the body \<open>[ ]\<close>, with the same parser, loader
  and runtime identity, return decisions with different provenance ids when the audit
  append raises in one of them. That one answers from the \<open>except\<close> branch, with the
  digest of the raw bytes for request hash.
\<close>

theorem provenance_audit_counterexample:
  "failing_audit_env = demo_env\<lparr>append_audit_record := append_audit_record failing_audit_env\<rparr> \<and>
   execute demo_env ''[ ]'' \<noteq> None \<and> execute failing_audit_env ''[ ]'' \<noteq> None \<and>
   map_option provenance_id (execute demo_env ''[ ]'') \<noteq>
     map_option provenance_id (execute failing_audit_env ''[ ]'')"
proof -
  have "failing_audit_env = demo_env\<lparr>append_audit_record := append_audit_record failing_audit_env\<rparr>"
    by (simp add: failing_audit_env_def)
  moreover have "execute demo_env ''[ ]'' \<noteq> None \<and> execute failing_audit_env ''[ ]'' \<noteq> None \<and>
    map_option provenance_id (execute demo_env ''[ ]'') \<noteq>
      map_option provenance_id (execute failing_audit_env ''[ ]'')"
    by code_simp
  ultimately show ?thesis by blast
qed

text \<open>
  C5, amended. Two invocations on the same request bytes, with the same library, profile
  loader and runtime identity, in neither of which the audit append raises, both return a
  decision, and the two decisions carry the same provenance id, whatever the clock reads
  and whatever the audit log holds.
\<close>

theorem provenance_deterministic:
  assumes "\<forall>r. append_audit_record E r" and "\<forall>r. app r"
  shows "\<exists>d1 d2. execute E raw = Some d1 \<and>
           execute (E\<lparr>utc_now_iso := clock, append_audit_record := app\<rparr>) raw = Some d2 \<and>
           provenance_id d1 = provenance_id d2"
proof -
  from execute_ok(2) [OF assms] obtain d where d: "execute E raw = Some d"
    by blast
  moreover have "execute (E\<lparr>utc_now_iso := clock, append_audit_record := app\<rparr>) raw = Some d"
    using execute_ok(1) [OF assms] d by simp
  ultimately show ?thesis by blast
qed

theorem provenance_deterministic_witness:
  "execute demo_env demo_raw \<noteq> None \<and>
   map_option provenance_id
     (execute (demo_env\<lparr>utc_now_iso := (\<lambda>n. ''2027-06-30T12:00:00+00:00''),
                        append_audit_record := (\<lambda>r. 0 \<le> rec_seq r)\<rparr>) demo_raw)
     = map_option provenance_id (execute demo_env demo_raw)"
proof -
  have a: "\<forall>r. append_audit_record demo_env r"
    by (simp add: demo_env_def)
  have b: "\<forall>r::int audit_record. 0 \<le> rec_seq r"
    by simp
  show ?thesis
    using provenance_deterministic [OF a b, of demo_raw "\<lambda>n. ''2027-06-30T12:00:00+00:00''"]
    by auto
qed


end
